theory Spec2Isabelle
  imports Main
begin

section \<open>Python values used by sortmedia.py\<close>

text \<open>
  Exceptions are values: a function that can raise returns \<open>error + 'a\<close>, with
  \<open>Inl\<close> the exception. Every member of \<open>error\<close> is a subclass of Python's
  \<open>Exception\<close>, so \<open>except Exception\<close> catches all of them and
  \<open>except ValueError\<close> only the first.
\<close>

datatype error = ValueError | OverflowError | KeyError | OSError | OtherError

definition ebind :: "error + 'a \<Rightarrow> ('a \<Rightarrow> error + 'b) \<Rightarrow> error + 'b" where
  "ebind m f = (case m of Inl e \<Rightarrow> Inl e | Inr x \<Rightarrow> f x)"

subsection \<open>Strings\<close>

text \<open>
  A \<open>string\<close> holds code points 0..255. \<open>is_space\<close> is \<open>str.isspace\<close> on that
  range: TAB..CR, FS..US, space, NEL and NBSP.
\<close>

definition is_space :: "char \<Rightarrow> bool" where
  "is_space c = (let n = (of_char c :: nat) in
     (9 \<le> n \<and> n \<le> 13) \<or> (28 \<le> n \<and> n \<le> 32) \<or> n = 133 \<or> n = 160)"

text \<open>\<open>str.split()\<close> without argument: the maximal runs of non-whitespace.\<close>

fun words_from :: "string \<Rightarrow> string \<Rightarrow> string list" where
  "words_from cur [] = (if cur = [] then [] else [cur])"
| "words_from cur (c # cs) =
     (if is_space c then (if cur = [] then words_from [] cs else cur # words_from [] cs)
      else words_from (cur @ [c]) cs)"

definition split_ws :: "string \<Rightarrow> string list" where
  "split_ws s = words_from [] s"

text \<open>\<open>s.split(d)\<close> for a one-character separator: never the empty list.\<close>

fun split_on :: "char \<Rightarrow> string \<Rightarrow> string list" where
  "split_on d [] = [[]]"
| "split_on d (c # cs) =
     (if c = d then [] # split_on d cs
      else (case split_on d cs of [] \<Rightarrow> [[c]] | x # xs \<Rightarrow> (c # x) # xs))"

text \<open>
  \<open>re.split('(\+|-|Z)', s)\<close>: the pieces between the separators, with each captured
  separator as an element of its own between them.
\<close>

definition is_sep :: "char \<Rightarrow> bool" where
  "is_sep c = (c = CHR ''+'' \<or> c = CHR ''-'' \<or> c = CHR ''Z'')"

fun re_split :: "string \<Rightarrow> string list" where
  "re_split [] = [[]]"
| "re_split (c # cs) =
     (if is_sep c then [] # [c] # re_split cs
      else (case re_split cs of [] \<Rightarrow> [[c]] | x # xs \<Rightarrow> (c # x) # xs))"

text \<open>Comparison of strings, \<open>a < b\<close> in Python: lexicographic by code point.\<close>

fun str_less :: "string \<Rightarrow> string \<Rightarrow> bool" where
  "str_less [] [] = False"
| "str_less [] (y # ys) = True"
| "str_less (x # xs) [] = False"
| "str_less (x # xs) (y # ys) =
     ((of_char x :: nat) < of_char y \<or> (x = y \<and> str_less xs ys))"

text \<open>
  \<open>int(s)\<close> on a string without whitespace: an optional sign, then decimal digits, where
  single underscores may stand between digits. (\<open>int\<close> also strips surrounding
  whitespace; every string converted in this program is a piece of a token of
  \<open>split()\<close> and has none. The interpreter's optional limit on the number of digits
  is not modelled.)
\<close>

definition is_digit :: "char \<Rightarrow> bool" where
  "is_digit c = (let n = (of_char c :: nat) in 48 \<le> n \<and> n \<le> 57)"

fun int_body_ok :: "string \<Rightarrow> bool" where
  "int_body_ok [] = False"
| "int_body_ok [c] = is_digit c"
| "int_body_ok (c # d # cs) =
     (is_digit c \<and> (if d = CHR ''_'' then int_body_ok cs else int_body_ok (d # cs)))"

definition digits_value :: "string \<Rightarrow> int" where
  "digits_value s =
     foldl (\<lambda>a c. if c = CHR ''_'' then a else 10 * a + (int (of_char c) - 48)) 0 s"

definition py_int :: "string \<Rightarrow> error + int" where
  "py_int s =
     (case s of
        [] \<Rightarrow> Inl ValueError
      | c # cs \<Rightarrow>
          if c = CHR ''-'' then (if int_body_ok cs then Inr (- digits_value cs) else Inl ValueError)
          else if c = CHR ''+'' then (if int_body_ok cs then Inr (digits_value cs) else Inl ValueError)
          else if int_body_ok s then Inr (digits_value s) else Inl ValueError)"

text \<open>\<open>str(n)\<close> for \<open>n \<ge> 0\<close>, and the format \<open>{:02d}\<close>.\<close>

definition digit_char :: "nat \<Rightarrow> char" where
  "digit_char n = char_of (48 + n)"

fun str_nat :: "nat \<Rightarrow> string" where
  "str_nat n = (if n < 10 then [digit_char n] else str_nat (n div 10) @ [digit_char (n mod 10)])"

definition fmt_02d :: "nat \<Rightarrow> string" where
  "fmt_02d n = (if n < 10 then CHR ''0'' # str_nat n else str_nat n)"

subsection \<open>datetime and timedelta\<close>

text \<open>
  A naive \<open>datetime\<close> with microsecond 0, and a \<open>timedelta\<close> of whole seconds (the
  program never builds another one from its own arithmetic). The constructor converts its
  arguments to C ints first (OverflowError), then checks the calendar (ValueError).
\<close>

record datetime =
  year :: int
  month :: int
  day :: int
  hour :: int
  minute :: int
  second :: int

type_synonym timedelta = int

definition is_leap :: "int \<Rightarrow> bool" where
  "is_leap y = (y mod 4 = 0 \<and> (y mod 100 \<noteq> 0 \<or> y mod 400 = 0))"

definition days_in_month :: "int \<Rightarrow> int \<Rightarrow> int" where
  "days_in_month y m =
     (if m = 2 then (if is_leap y then 29 else 28)
      else if m = 4 \<or> m = 6 \<or> m = 9 \<or> m = 11 then 30 else 31)"

definition c_int :: "int \<Rightarrow> bool" where
  "c_int n = (- 2147483648 \<le> n \<and> n \<le> 2147483647)"

definition valid_datetime :: "int \<Rightarrow> int \<Rightarrow> int \<Rightarrow> int \<Rightarrow> int \<Rightarrow> int \<Rightarrow> bool" where
  "valid_datetime y m d hh mm ss =
     (1 \<le> y \<and> y \<le> 9999 \<and> 1 \<le> m \<and> m \<le> 12 \<and> 1 \<le> d \<and> d \<le> days_in_month y m \<and>
      0 \<le> hh \<and> hh \<le> 23 \<and> 0 \<le> mm \<and> mm \<le> 59 \<and> 0 \<le> ss \<and> ss \<le> 59)"

definition mk_datetime :: "int \<Rightarrow> int \<Rightarrow> int \<Rightarrow> int \<Rightarrow> int \<Rightarrow> int \<Rightarrow> error + datetime" where
  "mk_datetime y m d hh mm ss =
     (if \<not> (c_int y \<and> c_int m \<and> c_int d \<and> c_int hh \<and> c_int mm \<and> c_int ss) then Inl OverflowError
      else if \<not> valid_datetime y m d hh mm ss then Inl ValueError
      else Inr \<lparr>year = y, month = m, day = d, hour = hh, minute = mm, second = ss\<rparr>)"

text \<open>A timedelta holds between -999999999 and 999999999 days.\<close>

definition mk_timedelta :: "int \<Rightarrow> error + timedelta" where
  "mk_timedelta s =
     (if - 999999999 \<le> s div 86400 \<and> s div 86400 \<le> 999999999 then Inr s
      else Inl OverflowError)"

text \<open>The proleptic Gregorian ordinal of a date (1 is 0001-01-01), and back.\<close>

definition days_before_year :: "int \<Rightarrow> int" where
  "days_before_year y = (y - 1) * 365 + (y - 1) div 4 - (y - 1) div 100 + (y - 1) div 400"

fun days_before_month :: "int \<Rightarrow> nat \<Rightarrow> int" where
  "days_before_month y 0 = 0"
| "days_before_month y (Suc k) =
     (if k = 0 then 0 else days_before_month y k + days_in_month y (int k))"

definition ymd2ord :: "int \<Rightarrow> int \<Rightarrow> int \<Rightarrow> int" where
  "ymd2ord y m d = days_before_year y + days_before_month y (nat m) + d"

definition ord2ymd :: "int \<Rightarrow> int \<times> int \<times> int" where
  "ord2ymd n0 =
     (let n = n0 - 1;
          n400 = n div 146097; n = n mod 146097;
          n100 = n div 36524; n = n mod 36524;
          n4 = n div 1461; n = n mod 1461;
          n1 = n div 365; n = n mod 365;
          y = n400 * 400 + 1 + n100 * 100 + n4 * 4 + n1
      in if n1 = 4 \<or> n100 = 4 then (y - 1, 12, 31)
         else
           (let m = (n + 50) div 32;
                preceding = days_before_month y (nat m)
            in if preceding > n
               then (y, m - 1, n - (preceding - days_in_month y (m - 1)) + 1)
               else (y, m, n - preceding + 1)))"

definition to_seconds :: "datetime \<Rightarrow> int" where
  "to_seconds t =
     ymd2ord (year t) (month t) (day t) * 86400 + hour t * 3600 + minute t * 60 + second t"

definition of_seconds :: "int \<Rightarrow> error + datetime" where
  "of_seconds s =
     (let n = s div 86400; r = s mod 86400
      in if n < 1 \<or> 3652059 < n then Inl OverflowError
         else (case ord2ymd n of (y, m, d) \<Rightarrow>
           Inr \<lparr>year = y, month = m, day = d,
                hour = r div 3600, minute = (r mod 3600) div 60, second = r mod 60\<rparr>))"

text \<open>\<open>t + delta\<close>, \<open>t - delta\<close> (OverflowError outside the years 1..9999) and \<open>a - b\<close>.\<close>

definition dt_add :: "datetime \<Rightarrow> timedelta \<Rightarrow> error + datetime" where
  "dt_add t delta = of_seconds (to_seconds t + delta)"

definition dt_sub :: "datetime \<Rightarrow> timedelta \<Rightarrow> error + datetime" where
  "dt_sub t delta = of_seconds (to_seconds t - delta)"

definition dt_diff :: "datetime \<Rightarrow> datetime \<Rightarrow> timedelta" where
  "dt_diff a b = to_seconds a - to_seconds b"

section \<open>The libraries the program calls\<close>

text \<open>
  \<open>strftime\<close>, the timezone finder and pytz are not part of the program; they are
  parameters. \<open>certain_timezone_at\<close> stands for
  \<open>TimezoneFinder().certain_timezone_at(lng=..., lat=...)\<close>, \<open>timezone\<close> for
  \<open>pytz.timezone\<close>, \<open>localize\<close> for \<open>tz.localize(date)\<close>, \<open>utc\<close> for
  \<open>pytz.utc\<close> and \<open>aware_diff\<close> for the difference of two localized datetimes.
  Metadata values are the text of the JSON scalars.
\<close>

record ('tz, 'aw) library =
  strftime :: "datetime \<Rightarrow> string \<Rightarrow> error + string"
  certain_timezone_at :: "string \<Rightarrow> string \<Rightarrow> error + string option"
  timezone :: "string \<Rightarrow> error + 'tz"
  localize :: "'tz \<Rightarrow> datetime \<Rightarrow> error + 'aw"
  utc :: "'tz"
  aware_diff :: "'aw \<Rightarrow> 'aw \<Rightarrow> error + timedelta"

section \<open>sortmedia.py: timestamps\<close>

definition MEDIA_TYPE_PHOTO :: string where "MEDIA_TYPE_PHOTO = ''photo''"
definition MEDIA_TYPE_VIDEO :: string where "MEDIA_TYPE_VIDEO = ''video''"
definition TAG_DATE_PHOTO :: string where "TAG_DATE_PHOTO = ''EXIF:DateTimeOriginal''"
definition TAG_DATE_VIDEO :: string where "TAG_DATE_VIDEO = ''QuickTime:CreateDate''"
definition TAG_DATE_FILE :: string where "TAG_DATE_FILE = ''File:FileModifyDate''"
definition TAG_GPS_LATITUDE :: string where "TAG_GPS_LATITUDE = ''Composite:GPSLatitude''"
definition TAG_GPS_LONGITUDE :: string where "TAG_GPS_LONGITUDE = ''Composite:GPSLongitude''"

text \<open>
  \<open>format_offset\<close>. \<open>int(offset.total_seconds() / 60)\<close> truncates towards zero; on
  whole seconds within the range of a timedelta the float quotient is exact enough for
  the truncation to be the integer one.
\<close>

definition format_offset :: "timedelta \<Rightarrow> string" where
  "format_offset offset =
     (let diff_min = (if offset < 0 then - ((- offset) div 60) else offset div 60)
      in (if diff_min < 0 then ''-'' else ''+'') @ '' '' @
         fmt_02d (nat (abs diff_min) div 60) @ '':'' @ fmt_02d (nat (abs diff_min) mod 60))"

text \<open>
  \<open>get_offset\<close>: the whole body is inside \<open>try ... except Exception: return None\<close>.
\<close>

definition get_offset :: "('tz, 'aw) library \<Rightarrow> string \<Rightarrow> string \<Rightarrow> datetime \<Rightarrow> error + timedelta option" where
  "get_offset L lat lng date =
     (case
        ebind (certain_timezone_at L lng lat) (\<lambda>tz_name.
          case tz_name of
            None \<Rightarrow> Inr None
          | Some name \<Rightarrow>
              ebind (timezone L name) (\<lambda>tz.
              ebind (localize L tz date) (\<lambda>date_tz.
              ebind (localize L (utc L) date) (\<lambda>date_utc.
              ebind (aware_diff L date_utc date_tz) (\<lambda>d. Inr (Some d))))))
      of Inl e \<Rightarrow> Inr None
       | Inr r \<Rightarrow> Inr r)"

text \<open>
  \<open>parse_date\<close>. \<open>parse_time_and_offset\<close> is the part from \<open># default time\<close> to
  the end of \<open># parse time and offset\<close>, on \<open>elements[1:]\<close>; \<open>parse_time\<close> and
  \<open>parse_offset\<close> are its blocks \<open># time\<close> and \<open># offset\<close>, which return the
  defaults where the source leaves them unchanged.
\<close>

definition parse_time :: "string \<Rightarrow> error + (int \<times> int \<times> int)" where
  "parse_time entry =
     (case split_on CHR '':'' entry of
        [t0, t1, t2] \<Rightarrow>
          ebind (py_int t0) (\<lambda>hour.
          ebind (py_int t1) (\<lambda>minute.
          ebind (py_int (case split_on CHR ''.'' t2 of [] \<Rightarrow> [] | p # _ \<Rightarrow> p)) (\<lambda>second.
          Inr (hour, minute, second))))
      | [t0, t1] \<Rightarrow>
          ebind (py_int t0) (\<lambda>hour.
          ebind (py_int t1) (\<lambda>minute.
          Inr (hour, minute, 0)))
      | _ \<Rightarrow> Inr (12, 0, 0))"

definition parse_offset :: "string list \<Rightarrow> error + timedelta" where
  "parse_offset time_entries =
     (case time_entries of
        e0 # e1 # e2 # _ \<Rightarrow>
          (case split_on CHR '':'' e2 of
             [o0, o1] \<Rightarrow>
               ebind (py_int o0) (\<lambda>offset_hours.
               ebind (py_int o1) (\<lambda>offset_minutes.
               ebind (mk_timedelta (offset_hours * 3600 + offset_minutes * 60)) (\<lambda>offset.
               if e1 = ''-'' then mk_timedelta (offset * (- 1)) else Inr offset)))
           | _ \<Rightarrow> Inr 0)
      | _ \<Rightarrow> Inr 0)"

definition parse_time_and_offset :: "string list \<Rightarrow> error + ((int \<times> int \<times> int) \<times> timedelta)" where
  "parse_time_and_offset elements =
     (case elements of
        [] \<Rightarrow> Inr ((12, 0, 0), 0)
      | e1 # _ \<Rightarrow>
          ebind (parse_time (case re_split e1 of [] \<Rightarrow> [] | p # _ \<Rightarrow> p)) (\<lambda>hms.
          ebind (parse_offset (re_split e1)) (\<lambda>offset. Inr (hms, offset))))"

definition parse_date ::
  "(datetime \<Rightarrow> string \<Rightarrow> error + string) \<Rightarrow> string \<Rightarrow> error + (datetime option \<times> timedelta option)" where
  "parse_date fmt text =
     (case split_ws text of
        [] \<Rightarrow> Inr (None, None)
      | e # elements \<Rightarrow>
          (case split_on CHR '':'' e of
             [d0, d1, d2] \<Rightarrow>
               if str_less ''0000'' d0 \<and> CHR ''.'' \<notin> set (d0 @ d1 @ d2) then
                 ebind (py_int d0) (\<lambda>year.
                 ebind (py_int d1) (\<lambda>month.
                 ebind (py_int d2) (\<lambda>day.
                 ebind (parse_time_and_offset elements) (\<lambda>((hour, minute, second), offset).
                      case mk_datetime year month day hour minute second of
                        Inl ValueError \<Rightarrow> Inr (None, None)
                      | Inl x \<Rightarrow> Inl x
                      | Inr date \<Rightarrow>
                          (case fmt date ''%Y/%m'' of
                             Inl ValueError \<Rightarrow> Inr (None, None)
                           | Inl x \<Rightarrow> Inl x
                           | Inr _ \<Rightarrow> Inr (Some date, Some offset))))))
               else Inr (None, None)
           | _ \<Rightarrow> Inr (None, None)))"

text \<open>\<open>get_date\<close>: \<open>(None, None)\<close> is \<open>None\<close>, a pair of date and info is \<open>Some\<close>.\<close>

definition get_date ::
  "('tz, 'aw) library \<Rightarrow> (string \<rightharpoonup> string) \<Rightarrow> string \<Rightarrow> error + (datetime \<times> string) option" where
  "get_date L data media_type =
     (if media_type = MEDIA_TYPE_PHOTO then
        (case data TAG_DATE_PHOTO of
           None \<Rightarrow> Inr None
         | Some text \<Rightarrow>
             ebind (parse_date (strftime L) text) (\<lambda>(date_photo, _).
               case date_photo of
                 None \<Rightarrow> Inr None
               | Some d \<Rightarrow> Inr (Some (d, TAG_DATE_PHOTO @ '' defined in local time''))))
      else if media_type = MEDIA_TYPE_VIDEO then
        (case data TAG_DATE_VIDEO of
           None \<Rightarrow> Inr None
         | Some text \<Rightarrow>
             ebind (parse_date (strftime L) text) (\<lambda>(date_video, _).
               case date_video of
                 None \<Rightarrow> Inr None
               | Some dv \<Rightarrow>
                   ebind (case (data TAG_GPS_LATITUDE, data TAG_GPS_LONGITUDE) of
                            (Some lat, Some lng) \<Rightarrow> get_offset L lat lng dv
                          | _ \<Rightarrow> Inr None) (\<lambda>offset_gps.
                     case offset_gps of
                       Some og \<Rightarrow>
                         ebind (dt_add dv og) (\<lambda>d.
                           Inr (Some (d, TAG_DATE_VIDEO @ '' in UTC '' @ format_offset og @ '' via GPS'')))
                     | None \<Rightarrow>
                         ebind (case data TAG_DATE_FILE of
                                  None \<Rightarrow> Inr None
                                | Some ftext \<Rightarrow>
                                    ebind (parse_date (strftime L) ftext) (\<lambda>(date_file, offset_file).
                                      case (date_file, offset_file) of
                                        (Some df, Some off) \<Rightarrow>
                                          ebind (dt_sub df off) (\<lambda>local.
                                            if abs (dt_diff local dv) \<le> 3 then
                                              ebind (dt_add dv off) (\<lambda>d.
                                                Inr (Some (d, TAG_DATE_VIDEO @ '' in UTC '' @
                                                              format_offset off @ '' via File'')))
                                            else Inr None)
                                      | _ \<Rightarrow> Inr None)) (\<lambda>corroborated.
                           case corroborated of
                             Some r \<Rightarrow> Inr (Some r)
                           | None \<Rightarrow> Inr (Some (dv, TAG_DATE_VIDEO @ '' assumed in local time''))))))
      else Inr None)"

section \<open>sortmedia.py: placement\<close>

subsection \<open>Paths, as posixpath has them\<close>

definition startswith :: "string \<Rightarrow> string \<Rightarrow> bool" where
  "startswith s p = (take (length p) s = p)"

text \<open>\<open>p in s\<close> on strings.\<close>

fun contains :: "string \<Rightarrow> string \<Rightarrow> bool" where
  "contains [] p = (p = [])"
| "contains (c # cs) p = (startswith (c # cs) p \<or> contains cs p)"

text \<open>\<open>s.rfind(c)\<close>: the index of the last \<open>c\<close>, or -1.\<close>

definition rfind :: "string \<Rightarrow> char \<Rightarrow> int" where
  "rfind s c =
     (if c \<in> set s then int (length s) - 1 - int (length (takeWhile (\<lambda>x. x \<noteq> c) (rev s)))
      else - 1)"

definition os_path_join :: "string \<Rightarrow> string \<Rightarrow> string" where
  "os_path_join a b =
     (if startswith b ''/'' then b
      else if a = [] \<or> (a \<noteq> [] \<and> last a = CHR ''/'') then a @ b
      else a @ ''/'' @ b)"

definition os_path_basename :: "string \<Rightarrow> string" where
  "os_path_basename p = drop (nat (rfind p CHR ''/'' + 1)) p"

definition os_path_splitext :: "string \<Rightarrow> string \<times> string" where
  "os_path_splitext p =
     (let sepIndex = rfind p CHR ''/''; dotIndex = rfind p CHR ''.''
      in if dotIndex > sepIndex \<and>
            (\<exists>x \<in> set (take (nat (dotIndex - (sepIndex + 1))) (drop (nat (sepIndex + 1)) p)).
               x \<noteq> CHR ''.'')
         then (take (nat dotIndex) p, drop (nat dotIndex) p)
         else (p, []))"

text \<open>\<open>str.lower\<close> on code points 0..255.\<close>

definition lower_char :: "char \<Rightarrow> char" where
  "lower_char c =
     (let n = (of_char c :: nat)
      in if (65 \<le> n \<and> n \<le> 90) \<or> (192 \<le> n \<and> n \<le> 222 \<and> n \<noteq> 215) then char_of (n + 32) else c)"

definition lower :: "string \<Rightarrow> string" where
  "lower s = map lower_char s"

subsection \<open>The file system\<close>

text \<open>
  The regular files, each with what \<open>filecmp.cmp\<close> compares of it. Directories are not
  modelled: \<open>os.makedirs\<close> has no effect here, and no destination is a directory.
  Every operation raises OSError on a missing file, as the library does.
\<close>

definition filecmp :: "(string \<rightharpoonup> 'c) \<Rightarrow> string \<Rightarrow> string \<Rightarrow> error + bool" where
  "filecmp fs a b =
     (case fs a of
        None \<Rightarrow> Inl OSError
      | Some x \<Rightarrow> (case fs b of None \<Rightarrow> Inl OSError | Some y \<Rightarrow> Inr (x = y)))"

definition os_remove :: "(string \<rightharpoonup> 'c) \<Rightarrow> string \<Rightarrow> error + (string \<rightharpoonup> 'c)" where
  "os_remove fs src = (case fs src of None \<Rightarrow> Inl OSError | Some _ \<Rightarrow> Inr (fs(src := None)))"

definition shutil_copy2 :: "(string \<rightharpoonup> 'c) \<Rightarrow> string \<Rightarrow> string \<Rightarrow> error + (string \<rightharpoonup> 'c)" where
  "shutil_copy2 fs src dst = (case fs src of None \<Rightarrow> Inl OSError | Some x \<Rightarrow> Inr (fs(dst \<mapsto> x)))"

definition shutil_move :: "(string \<rightharpoonup> 'c) \<Rightarrow> string \<Rightarrow> string \<Rightarrow> error + (string \<rightharpoonup> 'c)" where
  "shutil_move fs src dst =
     (case fs src of None \<Rightarrow> Inl OSError | Some x \<Rightarrow> Inr ((fs(src := None))(dst \<mapsto> x)))"

subsection \<open>sort\<close>

text \<open>
  The arguments of \<open>sort\<close> that the loop over the metadata reads, and the variables it
  updates together with the file system. \<open>verbose\<close> only prints.
\<close>

record args =
  media_type :: string
  dst_dir :: string
  copy :: bool
  keep :: bool
  test :: bool
  subdir_format :: string
  filename_format :: "string option"

record 'c state =
  num_ignored :: nat
  num_duplicates :: nat
  num_processed :: nat
  processed :: "(string \<times> string) list"
  test_file_dict :: "string \<rightharpoonup> string"
  files :: "string \<rightharpoonup> 'c"

text \<open>
  The loop \<open>while True\<close> under \<open># check for collisions\<close>. \<open>occupied\<close> is
  the condition of its \<open>if\<close>, \<open>dst_compare\<close> the file the source is compared
  with. The loop returns the final \<open>dst_file\<close> and \<open>identical_file_exists\<close>;
  \<open>None\<close> is a loop that never ends.
\<close>

definition occupied :: "bool \<Rightarrow> (string \<rightharpoonup> 'c) \<Rightarrow> (string \<rightharpoonup> string) \<Rightarrow> string \<Rightarrow> bool" where
  "occupied tst fs dict dst_file = (fs dst_file \<noteq> None \<or> (tst \<and> dict dst_file \<noteq> None))"

definition dst_compare :: "(string \<rightharpoonup> 'c) \<Rightarrow> (string \<rightharpoonup> string) \<Rightarrow> string \<Rightarrow> error + string" where
  "dst_compare fs dict dst_file =
     (if fs dst_file \<noteq> None then Inr dst_file
      else (case dict dst_file of None \<Rightarrow> Inl KeyError | Some s \<Rightarrow> Inr s))"

partial_function (option) collision_loop ::
  "bool \<Rightarrow> bool \<Rightarrow> (string \<rightharpoonup> 'c) \<Rightarrow> (string \<rightharpoonup> string) \<Rightarrow> string \<Rightarrow> string \<Rightarrow> string \<Rightarrow>
   string \<Rightarrow> nat \<Rightarrow> (error + string \<times> bool) option" where
  "collision_loop kp tst fs dict src_file dst_root dst_ext dst_file same_name_appendix =
     (if occupied tst fs dict dst_file then
        (case ebind (dst_compare fs dict dst_file) (\<lambda>c.
                if kp then Inr False else filecmp fs src_file c) of
           Inl e \<Rightarrow> Some (Inl e)
         | Inr identical \<Rightarrow>
             if identical then Some (Inr (dst_file, True))
             else collision_loop kp tst fs dict src_file dst_root dst_ext
                    (dst_root @ ''_'' @ str_nat same_name_appendix @ dst_ext)
                    (same_name_appendix + 1))
      else Some (Inr (dst_file, False)))"

declare collision_loop.simps [code]

text \<open>The three tests under \<open># ignore paths with .|@|#\<close>.\<close>

definition ignored_path :: "string \<Rightarrow> bool" where
  "ignored_path src_file =
     (((startswith src_file ''.'' \<and> \<not> startswith src_file ''./'') \<or> contains src_file ''/.'') \<or>
      (startswith src_file ''@'' \<or> contains src_file ''/@'') \<or>
      (startswith src_file ''#'' \<or> contains src_file ''/#''))"

text \<open>The blocks \<open># create folder structure\<close> to \<open># setup destination file\<close>.\<close>

definition destination ::
  "('tz, 'aw) library \<Rightarrow> args \<Rightarrow> string \<Rightarrow> datetime \<Rightarrow> error + string" where
  "destination L A src_file date =
     ebind (strftime L date (subdir_format A)) (\<lambda>dst_subdirs_path.
     ebind (case filename_format A of
              None \<Rightarrow> Inr (os_path_basename src_file)
            | Some f \<Rightarrow>
                ebind (strftime L date f) (\<lambda>name.
                  let ext = lower (snd (os_path_splitext (os_path_basename src_file)))
                  in Inr (name @ (if ext = ''.jpeg'' then ''.jpg'' else ext)))) (\<lambda>filename.
     Inr (os_path_join (foldl os_path_join (dst_dir A) (split_on CHR ''/'' dst_subdirs_path))
            filename)))"

text \<open>
  One pass of the loop \<open>for idx, data in enumerate(metadata)\<close>: the date is resolved
  first, then the path is tested.
\<close>

definition sort_body ::
  "('tz, 'aw) library \<Rightarrow> args \<Rightarrow> (string \<rightharpoonup> string) \<Rightarrow> 'c state \<Rightarrow> (error + 'c state) option" where
  "sort_body L A data st =
     (case data ''SourceFile'' of
        None \<Rightarrow> Some (Inl KeyError)
      | Some src_file \<Rightarrow>
     (case get_date L data (media_type A) of
        Inl e \<Rightarrow> Some (Inl e)
      | Inr r \<Rightarrow>
          if ignored_path src_file then Some (Inr (st\<lparr>num_ignored := num_ignored st + 1\<rparr>))
          else
     (case r of
        None \<Rightarrow> Some (Inr (st\<lparr>num_ignored := num_ignored st + 1\<rparr>))
      | Some (date, info) \<Rightarrow>
     (case destination L A src_file date of
        Inl e \<Rightarrow> Some (Inl e)
      | Inr dst_file0 \<Rightarrow>
     (case collision_loop (keep A) (test A) (files st) (test_file_dict st) src_file
             (fst (os_path_splitext dst_file0)) (snd (os_path_splitext dst_file0)) dst_file0 1 of
        None \<Rightarrow> None
      | Some (Inl e) \<Rightarrow> Some (Inl e)
      | Some (Inr (dst_file, identical_file_exists)) \<Rightarrow>
          (let st1 = (if test A
                      then st\<lparr>test_file_dict := (test_file_dict st)(dst_file \<mapsto> src_file)\<rparr>
                      else st)
           in if identical_file_exists then
                (let st2 = st1\<lparr>num_duplicates := num_duplicates st1 + 1\<rparr>
                 in if \<not> test A then
                      (if copy A then Some (Inr st2)
                       else (case os_remove (files st2) src_file of
                               Inl e \<Rightarrow> Some (Inl e)
                             | Inr fs \<Rightarrow> Some (Inr (st2\<lparr>files := fs\<rparr>))))
                    else Some (Inr st2))
              else
                (let st2 = st1\<lparr>num_processed := num_processed st1 + 1,
                               processed := processed st1 @ [(src_file, dst_file)]\<rparr>
                 in if \<not> test A then
                      (case (if copy A then shutil_copy2 (files st2) src_file dst_file
                             else shutil_move (files st2) src_file dst_file) of
                         Inl e \<Rightarrow> Some (Inl e)
                       | Inr fs \<Rightarrow> Some (Inr (st2\<lparr>files := fs\<rparr>)))
                    else Some (Inr st2))))))))"

fun sort_loop ::
  "('tz, 'aw) library \<Rightarrow> args \<Rightarrow> (string \<rightharpoonup> string) list \<Rightarrow> 'c state \<Rightarrow> (error + 'c state) option" where
  "sort_loop L A [] st = Some (Inr st)"
| "sort_loop L A (data # metadata) st =
     (case sort_body L A data st of
        None \<Rightarrow> None
      | Some (Inl e) \<Rightarrow> Some (Inl e)
      | Some (Inr st') \<Rightarrow> sort_loop L A metadata st')"

text \<open>
  \<open>sort\<close> from \<open># final processing with Python\<close> on: the metadata is what ExifTool
  returned, \<open>fs\<close> the files present when the loop starts.
\<close>

definition sort_media ::
  "('tz, 'aw) library \<Rightarrow> args \<Rightarrow> (string \<rightharpoonup> string) list \<Rightarrow> (string \<rightharpoonup> 'c) \<Rightarrow> (error + 'c state) option" where
  "sort_media L A metadata fs =
     sort_loop L A metadata
       \<lparr>num_ignored = 0, num_duplicates = 0, num_processed = 0, processed = [],
        test_file_dict = Map.empty, files = fs\<rparr>"

section \<open>Stand-ins for the libraries, for concrete runs\<close>

text \<open>
  A \<open>strftime\<close> that knows the numeric directives and never fails, one that refuses
  years before 1900 as the older interpreter does, and a timezone database with one zone.
\<close>

fun strftime_num :: "datetime \<Rightarrow> string \<Rightarrow> string" where
  "strftime_num t [] = []"
| "strftime_num t [c] = [c]"
| "strftime_num t (c # d # cs) =
     (if c = CHR ''%'' then
        (if d = CHR ''Y'' then str_nat (nat (year t))
         else if d = CHR ''m'' then fmt_02d (nat (month t))
         else if d = CHR ''d'' then fmt_02d (nat (day t))
         else if d = CHR ''H'' then fmt_02d (nat (hour t))
         else if d = CHR ''M'' then fmt_02d (nat (minute t))
         else if d = CHR ''S'' then fmt_02d (nat (second t))
         else [d]) @ strftime_num t cs
      else c # strftime_num t (d # cs))"

definition strftime_any :: "datetime \<Rightarrow> string \<Rightarrow> error + string" where
  "strftime_any t f = Inr (strftime_num t f)"

definition strftime_1900 :: "datetime \<Rightarrow> string \<Rightarrow> error + string" where
  "strftime_1900 t f = (if year t < 1900 then Inl ValueError else Inr (strftime_num t f))"

definition tokyo :: "(string, datetime \<times> int) library" where
  "tokyo =
     \<lparr>strftime = strftime_any,
      certain_timezone_at = (\<lambda>lng lat. if lng = ''139.69'' \<and> lat = ''35.68'' then Inr (Some ''Asia/Tokyo'')
                                        else if lng = [] \<or> lat = [] then Inl ValueError
                                        else Inr None),
      timezone = (\<lambda>name. if name = ''Asia/Tokyo'' \<or> name = ''UTC'' then Inr name else Inl OtherError),
      localize = (\<lambda>tz date. Inr (date, if tz = ''Asia/Tokyo'' then 32400 else 0)),
      utc = ''UTC'',
      aware_diff = (\<lambda>a b. Inr ((to_seconds (fst a) - snd a) - (to_seconds (fst b) - snd b)))\<rparr>"

text \<open>Metadata records of videos taken at noon UTC on 1 June 2021.\<close>

definition create_noon :: datetime where
  "create_noon = \<lparr>year = 2021, month = 6, day = 1, hour = 12, minute = 0, second = 0\<rparr>"





definition video_sea :: "string \<rightharpoonup> string" where
  "video_sea = [''SourceFile'' \<mapsto> ''in/e.mov'',
                ''QuickTime:CreateDate'' \<mapsto> ''2021:06:01 12:00:00'',
                ''File:FileModifyDate'' \<mapsto> ''2021:06:01 21:00:03+09:00'',
                ''Composite:GPSLatitude'' \<mapsto> ''0.0'',
                ''Composite:GPSLongitude'' \<mapsto> ''-30.0'']"

text \<open>
  Photos of June 2021 with the same name in different source folders (\<open>in/a\<close> and
  \<open>in/d\<close> hold the same content), and the arguments of a copying run.
\<close>

definition photo_a :: "string \<rightharpoonup> string" where
  "photo_a = [''SourceFile'' \<mapsto> ''in/a/photo.jpg'',
              ''EXIF:DateTimeOriginal'' \<mapsto> ''2021:06:01 10:00:00'']"

definition photo_b :: "string \<rightharpoonup> string" where
  "photo_b = [''SourceFile'' \<mapsto> ''in/b/photo.jpg'',
              ''EXIF:DateTimeOriginal'' \<mapsto> ''2021:06:02 11:00:00'']"

definition photo_c :: "string \<rightharpoonup> string" where
  "photo_c = [''SourceFile'' \<mapsto> ''in/c/photo.jpg'',
              ''EXIF:DateTimeOriginal'' \<mapsto> ''2021:06:03 12:00:00'']"

definition photo_d :: "string \<rightharpoonup> string" where
  "photo_d = [''SourceFile'' \<mapsto> ''in/d/photo.jpg'',
              ''EXIF:DateTimeOriginal'' \<mapsto> ''2021:06:01 10:00:00'']"

definition source_files :: "string \<rightharpoonup> nat" where
  "source_files = [''in/a/photo.jpg'' \<mapsto> 1, ''in/b/photo.jpg'' \<mapsto> 2,
                   ''in/c/photo.jpg'' \<mapsto> 3, ''in/d/photo.jpg'' \<mapsto> 1]"

definition copy_args :: args where
  "copy_args = \<lparr>media_type = ''photo'', dst_dir = ''out'', copy = True, keep = False,
                 test = False, subdir_format = ''%Y/%m'', filename_format = None\<rparr>"

text \<open>What a finished run reports, for reading the result of \<open>sort_media\<close>.\<close>

definition final_processed :: "(error + 'c state) option \<Rightarrow> (string \<times> string) list option" where
  "final_processed r = (case r of Some (Inr st) \<Rightarrow> Some (processed st) | _ \<Rightarrow> None)"

definition final_counts :: "(error + 'c state) option \<Rightarrow> (nat \<times> nat \<times> nat) option" where
  "final_counts r =
     (case r of
        Some (Inr st) \<Rightarrow> Some (num_ignored st, num_duplicates st, num_processed st)
      | _ \<Rightarrow> None)"

definition final_ledger :: "(error + 'c state) option \<Rightarrow> string \<Rightarrow> string option" where
  "final_ledger r p = (case r of Some (Inr st) \<Rightarrow> test_file_dict st p | _ \<Rightarrow> None)"

definition final_file :: "(error + 'c state) option \<Rightarrow> string \<Rightarrow> 'c option" where
  "final_file r p = (case r of Some (Inr st) \<Rightarrow> files st p | _ \<Rightarrow> None)"

definition final_error :: "(error + 'c state) option \<Rightarrow> error option" where
  "final_error r = (case r of Some (Inl e) \<Rightarrow> Some e | _ \<Rightarrow> None)"

section \<open>Properties of the timestamp parser\<close>

subsection \<open>The splitting functions\<close>

lemma split_on_nonempty: "split_on d s \<noteq> []"
  by (induction s) (auto split: list.splits)

lemma re_split_nonempty: "re_split s \<noteq> []"
  by (induction s) (auto split: list.splits)

lemma re_split_no_sep: "\<forall>c \<in> set s. \<not> is_sep c \<Longrightarrow> re_split s = [s]"
  by (induction s) auto

lemma re_split_at_sep:
  "\<forall>c \<in> set t. \<not> is_sep c \<Longrightarrow> is_sep sg \<Longrightarrow> re_split (t @ sg # rest) = t # [sg] # re_split rest"
  by (induction t) auto

lemma split_on_no_sep: "d \<notin> set s \<Longrightarrow> split_on d s = [s]"
  by (induction s) auto

lemma split_on_at_sep: "d \<notin> set a \<Longrightarrow> split_on d (a @ d # b) = a # split_on d b"
  by (induction a) auto

lemma parse_date_no_token: "split_ws text = [] \<Longrightarrow> parse_date fmt text = Inr (None, None)"
  by (simp add: parse_date_def)

lemma parse_date_fields:
  "split_ws text = e # es \<Longrightarrow> length (split_on CHR '':'' e) \<noteq> 3 \<Longrightarrow>
   parse_date fmt text = Inr (None, None)"
  by (auto simp add: parse_date_def split: list.splits)

lemma parse_date_guard:
  "split_ws text = e # es \<Longrightarrow> split_on CHR '':'' e = [d0, d1, d2] \<Longrightarrow>
   \<not> str_less ''0000'' d0 \<or> CHR ''.'' \<in> set (d0 @ d1 @ d2) \<Longrightarrow>
   parse_date fmt text = Inr (None, None)"
  by (auto simp add: parse_date_def)

lemma parse_date_construct:
  "split_ws text = e # es \<Longrightarrow> split_on CHR '':'' e = [d0, d1, d2] \<Longrightarrow>
   str_less ''0000'' d0 \<Longrightarrow> CHR ''.'' \<notin> set (d0 @ d1 @ d2) \<Longrightarrow>
   py_int d0 = Inr y \<Longrightarrow> py_int d1 = Inr m \<Longrightarrow> py_int d2 = Inr d \<Longrightarrow>
   parse_time_and_offset es = Inr ((hh, mm, ss), off) \<Longrightarrow>
   parse_date fmt text =
     (case mk_datetime y m d hh mm ss of
        Inl ValueError \<Rightarrow> Inr (None, None)
      | Inl x \<Rightarrow> Inl x
      | Inr date \<Rightarrow>
          (case fmt date ''%Y/%m'' of
             Inl ValueError \<Rightarrow> Inr (None, None)
           | Inl x \<Rightarrow> Inl x
           | Inr _ \<Rightarrow> Inr (Some date, Some off)))"
  by (simp add: parse_date_def ebind_def)


text \<open>
  Where \<open>parse_date\<close> returns \<open>(None, None)\<close>: when the text has no token, when
  the date token does not split into exactly three fields at the colons, when the year
  field is not above \<open>"0000"\<close> as a string or a date field holds a decimal point; and,
  once every field has been converted by \<open>int\<close> to a value that fits a C int, when the
  calendar values are invalid or \<open>strftime\<close> raises ValueError on the date.
\<close>

lemma parse_date_unparseable:
  "(split_ws text = [] \<longrightarrow> parse_date fmt text = Inr (None, None)) \<and>
   (split_ws text = e # es \<and> length (split_on CHR '':'' e) \<noteq> 3 \<longrightarrow>
      parse_date fmt text = Inr (None, None)) \<and>
   (split_ws text = e # es \<and> split_on CHR '':'' e = [d0, d1, d2] \<and>
    (\<not> str_less ''0000'' d0 \<or> CHR ''.'' \<in> set (d0 @ d1 @ d2)) \<longrightarrow>
      parse_date fmt text = Inr (None, None)) \<and>
   (split_ws text = e # es \<and> split_on CHR '':'' e = [d0, d1, d2] \<and>
    py_int d0 = Inr y \<and> py_int d1 = Inr m \<and> py_int d2 = Inr d \<and>
    parse_time_and_offset es = Inr ((hh, mm, ss), off) \<and>
    c_int y \<and> c_int m \<and> c_int d \<and> c_int hh \<and> c_int mm \<and> c_int ss \<and>
    (\<not> valid_datetime y m d hh mm ss \<or>
     fmt \<lparr>year = y, month = m, day = d, hour = hh, minute = mm, second = ss\<rparr> ''%Y/%m''
       = Inl ValueError) \<longrightarrow>
      parse_date fmt text = Inr (None, None))"
proof (intro conjI impI)
  assume "split_ws text = []"
  then show "parse_date fmt text = Inr (None, None)" by (rule parse_date_no_token)
next
  assume "split_ws text = e # es \<and> length (split_on CHR '':'' e) \<noteq> 3"
  then show "parse_date fmt text = Inr (None, None)" by (simp add: parse_date_fields)
next
  assume "split_ws text = e # es \<and> split_on CHR '':'' e = [d0, d1, d2] \<and>
    (\<not> str_less ''0000'' d0 \<or> CHR ''.'' \<in> set (d0 @ d1 @ d2))"
  then show "parse_date fmt text = Inr (None, None)" using parse_date_guard by blast
next
  assume a: "split_ws text = e # es \<and> split_on CHR '':'' e = [d0, d1, d2] \<and>
    py_int d0 = Inr y \<and> py_int d1 = Inr m \<and> py_int d2 = Inr d \<and>
    parse_time_and_offset es = Inr ((hh, mm, ss), off) \<and>
    c_int y \<and> c_int m \<and> c_int d \<and> c_int hh \<and> c_int mm \<and> c_int ss \<and>
    (\<not> valid_datetime y m d hh mm ss \<or>
     fmt \<lparr>year = y, month = m, day = d, hour = hh, minute = mm, second = ss\<rparr> ''%Y/%m''
       = Inl ValueError)"
  show "parse_date fmt text = Inr (None, None)"
  proof (cases "str_less ''0000'' d0 \<and> CHR ''.'' \<notin> set (d0 @ d1 @ d2)")
    case False
    with a show ?thesis using parse_date_guard by blast
  next
    case True
    with a have "parse_date fmt text =
      (case mk_datetime y m d hh mm ss of
        Inl ValueError \<Rightarrow> Inr (None, None)
      | Inl x \<Rightarrow> Inl x
      | Inr date \<Rightarrow>
          (case fmt date ''%Y/%m'' of
             Inl ValueError \<Rightarrow> Inr (None, None)
           | Inl x \<Rightarrow> Inl x
           | Inr _ \<Rightarrow> Inr (Some date, Some off)))"
      by (intro parse_date_construct) auto
    with a show ?thesis by (auto simp add: mk_datetime_def)
  qed
qed

lemma parse_date_unparseable_examples:
  "parse_date strftime_1900 '' '' = Inr (None, None) \<and>
   parse_date strftime_1900 ''12:30'' = Inr (None, None) \<and>
   parse_date strftime_1900 ''0000:01:01'' = Inr (None, None) \<and>
   parse_date strftime_1900 ''2020:1.5:01'' = Inr (None, None) \<and>
   parse_date strftime_1900 ''2020:13:40'' = Inr (None, None) \<and>
   parse_date strftime_1900 ''2021:02:31 10:00:00'' = Inr (None, None) \<and>
   parse_date strftime_1900 ''1899:12:31 23:59:59'' = Inr (None, None)"
proof -
  have s1: "split_ws '' '' = []" by code_simp
  have s2: "split_ws ''12:30'' = [''12:30''] \<and> length (split_on CHR '':'' ''12:30'') \<noteq> 3"
    by code_simp
  have s3: "split_ws ''0000:01:01'' = [''0000:01:01''] \<and>
            split_on CHR '':'' ''0000:01:01'' = [''0000'', ''01'', ''01''] \<and>
            (\<not> str_less ''0000'' ''0000'' \<or> CHR ''.'' \<in> set (''0000'' @ ''01'' @ ''01''))"
    by code_simp
  have s4: "split_ws ''2020:1.5:01'' = [''2020:1.5:01''] \<and>
            split_on CHR '':'' ''2020:1.5:01'' = [''2020'', ''1.5'', ''01''] \<and>
            (\<not> str_less ''0000'' ''2020'' \<or> CHR ''.'' \<in> set (''2020'' @ ''1.5'' @ ''01''))"
    by code_simp
  have s5: "split_ws ''2020:13:40'' = [''2020:13:40''] \<and>
            split_on CHR '':'' ''2020:13:40'' = [''2020'', ''13'', ''40''] \<and>
            py_int ''2020'' = Inr 2020 \<and> py_int ''13'' = Inr 13 \<and> py_int ''40'' = Inr 40 \<and>
            parse_time_and_offset [] = Inr ((12, 0, 0), 0) \<and>
            c_int 2020 \<and> c_int 13 \<and> c_int 40 \<and> c_int 12 \<and> c_int 0 \<and> c_int 0 \<and>
            (\<not> valid_datetime 2020 13 40 12 0 0 \<or>
             strftime_1900 \<lparr>year = 2020, month = 13, day = 40, hour = 12, minute = 0, second = 0\<rparr>
               ''%Y/%m'' = Inl ValueError)"
    by code_simp
  have s6: "split_ws ''2021:02:31 10:00:00'' = [''2021:02:31'', ''10:00:00''] \<and>
            split_on CHR '':'' ''2021:02:31'' = [''2021'', ''02'', ''31''] \<and>
            py_int ''2021'' = Inr 2021 \<and> py_int ''02'' = Inr 2 \<and> py_int ''31'' = Inr 31 \<and>
            parse_time_and_offset [''10:00:00''] = Inr ((10, 0, 0), 0) \<and>
            c_int 2021 \<and> c_int 2 \<and> c_int 31 \<and> c_int 10 \<and> c_int 0 \<and> c_int 0 \<and>
            (\<not> valid_datetime 2021 2 31 10 0 0 \<or>
             strftime_1900 \<lparr>year = 2021, month = 2, day = 31, hour = 10, minute = 0, second = 0\<rparr>
               ''%Y/%m'' = Inl ValueError)"
    by code_simp
  have s7: "split_ws ''1899:12:31 23:59:59'' = [''1899:12:31'', ''23:59:59''] \<and>
            split_on CHR '':'' ''1899:12:31'' = [''1899'', ''12'', ''31''] \<and>
            py_int ''1899'' = Inr 1899 \<and> py_int ''12'' = Inr 12 \<and> py_int ''31'' = Inr 31 \<and>
            parse_time_and_offset [''23:59:59''] = Inr ((23, 59, 59), 0) \<and>
            c_int 1899 \<and> c_int 12 \<and> c_int 31 \<and> c_int 23 \<and> c_int 59 \<and> c_int 59 \<and>
            (\<not> valid_datetime 1899 12 31 23 59 59 \<or>
             strftime_1900 \<lparr>year = 1899, month = 12, day = 31, hour = 23, minute = 59, second = 59\<rparr>
               ''%Y/%m'' = Inl ValueError)"
    by code_simp
  note T = parse_date_unparseable
  from T [of "'' ''" strftime_1900] s1
  have r1: "parse_date strftime_1900 '' '' = Inr (None, None)" by blast
  from T [of "''12:30''" strftime_1900 "''12:30''" "[]"] s2
  have r2: "parse_date strftime_1900 ''12:30'' = Inr (None, None)" by blast
  from T [of "''0000:01:01''" strftime_1900 "''0000:01:01''" "[]" "''0000''" "''01''" "''01''"] s3
  have r3: "parse_date strftime_1900 ''0000:01:01'' = Inr (None, None)" by blast
  from T [of "''2020:1.5:01''" strftime_1900 "''2020:1.5:01''" "[]" "''2020''" "''1.5''" "''01''"] s4
  have r4: "parse_date strftime_1900 ''2020:1.5:01'' = Inr (None, None)" by blast
  from T [of "''2020:13:40''" strftime_1900 "''2020:13:40''" "[]" "''2020''" "''13''" "''40''"
             2020 13 40 12 0 0 0] s5
  have r5: "parse_date strftime_1900 ''2020:13:40'' = Inr (None, None)" by blast
  from T [of "''2021:02:31 10:00:00''" strftime_1900 "''2021:02:31''" "[''10:00:00'']"
             "''2021''" "''02''" "''31''" 2021 2 31 10 0 0 0] s6
  have r6: "parse_date strftime_1900 ''2021:02:31 10:00:00'' = Inr (None, None)" by blast
  from T [of "''1899:12:31 23:59:59''" strftime_1900 "''1899:12:31''" "[''23:59:59'']"
             "''1899''" "''12''" "''31''" 1899 12 31 23 59 59 0] s7
  have r7: "parse_date strftime_1900 ''1899:12:31 23:59:59'' = Inr (None, None)" by blast
  from r1 r2 r3 r4 r5 r6 r7 show ?thesis by blast
qed

text \<open>
  C7. The parser is to return \<open>(None, None)\<close>, not to raise, on invalid calendar
  values. On \<open>2020:13:40 aa:bb\<close> (month 13) it raises ValueError, whatever
  \<open>strftime\<close> does: \<open>int('aa')\<close> is evaluated under \<open># time\<close>, before the
  \<open>try\<close> around the constructor, whose \<open>except ValueError\<close> is commented
  "most probably caused by errors in time format". \<open>get_date\<close> does not catch it.
\<close>

theorem parse_date_raises_on_bad_time:
  "parse_date fmt ''2020:13:40 aa:bb'' = Inl ValueError \<and>
   get_date L [TAG_DATE_PHOTO \<mapsto> ''2020:13:40 aa:bb''] MEDIA_TYPE_PHOTO = Inl ValueError"
proof -
  have s: "split_ws ''2020:13:40 aa:bb'' = [''2020:13:40'', ''aa:bb'']" by code_simp
  have d: "split_on CHR '':'' ''2020:13:40'' = [''2020'', ''13'', ''40'']" by code_simp
  have g: "str_less ''0000'' ''2020'' \<and> CHR ''.'' \<notin> set (''2020'' @ ''13'' @ ''40'')"
    by code_simp
  have i: "py_int ''2020'' = Inr 2020 \<and> py_int ''13'' = Inr 13 \<and> py_int ''40'' = Inr 40"
    by code_simp
  have t: "parse_time_and_offset [''aa:bb''] = Inl ValueError" by code_simp
  have p: "parse_date fmt ''2020:13:40 aa:bb'' = Inl ValueError" for fmt
    using s d g i t by (simp add: parse_date_def ebind_def)
  then show ?thesis by (simp add: get_date_def ebind_def)
qed

subsection \<open>The offset\<close>

lemma ebind_Inr_iff: "ebind m f = Inr r \<longleftrightarrow> (\<exists>x. m = Inr x \<and> f x = Inr r)"
  by (cases m) (simp_all add: ebind_def)

lemma parse_date_accepted:
  assumes "parse_date fmt text = Inr (Some date, off)" "split_ws text = e # es"
  shows "\<exists>hms offset. parse_time_and_offset es = Inr (hms, offset) \<and> off = Some offset"
proof -
  from assms obtain d0 d1 d2 where d: "split_on CHR '':'' e = [d0, d1, d2]"
    by (auto simp add: parse_date_def split: list.splits)
  from assms d have g: "str_less ''0000'' d0 \<and> CHR ''.'' \<notin> set (d0 @ d1 @ d2)"
    by (auto simp add: parse_date_def split: if_splits)
  from assms d g obtain y m dd p where
    p: "parse_time_and_offset es = Inr p" and
    r: "(case p of ((hh, mm, ss), offset) \<Rightarrow>
          case mk_datetime y m dd hh mm ss of
            Inl ValueError \<Rightarrow> Inr (None, None)
          | Inl x \<Rightarrow> Inl x
          | Inr date \<Rightarrow>
              (case fmt date ''%Y/%m'' of
                 Inl ValueError \<Rightarrow> Inr (None, None)
               | Inl x \<Rightarrow> Inl x
               | Inr _ \<Rightarrow> Inr (Some date, Some offset))) = Inr (Some date, off)"
    by (auto simp add: parse_date_def ebind_Inr_iff)
  obtain hms offset where pp: "p = (hms, offset)" by (cases p)
  from r pp have "off = Some offset"
    by (auto split: prod.splits sum.splits error.splits)
  with p pp show ?thesis by blast
qed

lemma parse_offset_signed:
  assumes "parse_offset (t # [sg] # (hh @ CHR '':'' # mm) # rest) = Inr offset"
    "CHR '':'' \<notin> set hh" "CHR '':'' \<notin> set mm"
  shows "\<exists>H M. py_int hh = Inr H \<and> py_int mm = Inr M \<and>
           offset = (if sg = CHR ''-'' then - (H * 3600 + M * 60) else H * 3600 + M * 60)"
proof -
  from assms(2,3) have sp: "split_on CHR '':'' (hh @ CHR '':'' # mm) = [hh, mm]"
    by (simp add: split_on_at_sep split_on_no_sep)
  from assms(1) sp obtain H M o1 where
    H: "py_int hh = Inr H" and M: "py_int mm = Inr M" and
    o1: "mk_timedelta (H * 3600 + M * 60) = Inr o1" and
    r: "(if [sg] = ''-'' then mk_timedelta (o1 * (- 1)) else Inr o1) = Inr offset"
    by (auto simp add: parse_offset_def ebind_Inr_iff)
  from o1 have "o1 = H * 3600 + M * 60" by (simp add: mk_timedelta_def split: if_splits)
  with r have "offset = (if sg = CHR ''-'' then - (H * 3600 + M * 60) else H * 3600 + M * 60)"
    by (simp add: mk_timedelta_def split: if_splits)
  with H M show ?thesis by blast
qed

lemma parse_offset_none: "parse_offset [t] = Inr 0"
  by (simp add: parse_offset_def)

text \<open>
  C5. For a text that \<open>parse_date\<close> accepts: when the time token is a time, a sign
  \<open>+\<close> or \<open>-\<close> and a remainder \<open>HH:MM\<close>, the offset is \<open>HH\<close> hours and
  \<open>MM\<close> minutes, negated for \<open>-\<close>; when there is no time token, or the time token
  holds none of \<open>+\<close>, \<open>-\<close>, \<open>Z\<close>, the offset is the zero timedelta (it is not
  \<open>None\<close>). Offsets are in seconds.
\<close>

theorem parse_date_offset:
  assumes "parse_date fmt text = Inr (Some date, off)" and "split_ws text = e # es"
  shows "(es = (t @ sg # hh @ CHR '':'' # mm) # r \<and> (sg = CHR ''+'' \<or> sg = CHR ''-'') \<and>
          (\<forall>c \<in> set (t @ hh @ mm). \<not> is_sep c) \<and> CHR '':'' \<notin> set (hh @ mm) \<longrightarrow>
          (\<exists>H M. py_int hh = Inr H \<and> py_int mm = Inr M \<and>
             off = Some (if sg = CHR ''-'' then - (H * 3600 + M * 60) else H * 3600 + M * 60))) \<and>
         (es = [] \<or> (\<exists>e1 r. es = e1 # r \<and> (\<forall>c \<in> set e1. \<not> is_sep c)) \<longrightarrow> off = Some 0)"
proof -
  from assms obtain hms offset where
    po: "parse_time_and_offset es = Inr (hms, offset)" and off: "off = Some offset"
    using parse_date_accepted by blast
  show ?thesis
  proof (intro conjI impI)
    assume a: "es = (t @ sg # hh @ CHR '':'' # mm) # r \<and> (sg = CHR ''+'' \<or> sg = CHR ''-'') \<and>
          (\<forall>c \<in> set (t @ hh @ mm). \<not> is_sep c) \<and> CHR '':'' \<notin> set (hh @ mm)"
    then have sep: "is_sep sg" by (auto simp add: is_sep_def)
    from a have "re_split (t @ sg # hh @ CHR '':'' # mm) = t # [sg] # re_split (hh @ CHR '':'' # mm)"
      using sep by (intro re_split_at_sep) auto
    moreover from a have "re_split (hh @ CHR '':'' # mm) = [hh @ CHR '':'' # mm]"
      by (intro re_split_no_sep) (auto simp add: is_sep_def)
    ultimately have rs: "re_split (t @ sg # hh @ CHR '':'' # mm) = [t, [sg], hh @ CHR '':'' # mm]"
      by simp
    from po a rs have "parse_offset (t # [sg] # (hh @ CHR '':'' # mm) # []) = Inr offset"
      by (auto simp add: parse_time_and_offset_def ebind_def split: sum.splits)
    with a off show "\<exists>H M. py_int hh = Inr H \<and> py_int mm = Inr M \<and>
             off = Some (if sg = CHR ''-'' then - (H * 3600 + M * 60) else H * 3600 + M * 60)"
      using parse_offset_signed [of t sg hh mm "[]" offset] by auto
  next
    assume a: "es = [] \<or> (\<exists>e1 r. es = e1 # r \<and> (\<forall>c \<in> set e1. \<not> is_sep c))"
    then show "off = Some 0"
    proof
      assume "es = []"
      with po off show ?thesis by (simp add: parse_time_and_offset_def)
    next
      assume "\<exists>e1 r. es = e1 # r \<and> (\<forall>c \<in> set e1. \<not> is_sep c)"
      then obtain e1 r where e: "es = e1 # r" and ns: "\<forall>c \<in> set e1. \<not> is_sep c" by blast
      from ns have "re_split e1 = [e1]" by (rule re_split_no_sep)
      with po off e show ?thesis
        by (auto simp add: parse_time_and_offset_def ebind_def parse_offset_none split: sum.splits)
    qed
  qed
qed

theorem parse_date_offset_witness:
  "parse_date strftime_any ''2020:01:15 10:30:00+02:00''
     = Inr (Some \<lparr>year = 2020, month = 1, day = 15, hour = 10, minute = 30, second = 0\<rparr>, Some 7200) \<and>
   parse_date strftime_any ''2020:01:15 10:30:00-05:30''
     = Inr (Some \<lparr>year = 2020, month = 1, day = 15, hour = 10, minute = 30, second = 0\<rparr>, Some (- 19800)) \<and>
   parse_date strftime_any ''2020:01:15 10:30:00''
     = Inr (Some \<lparr>year = 2020, month = 1, day = 15, hour = 10, minute = 30, second = 0\<rparr>, Some 0) \<and>
   (\<exists>H M. py_int ''02'' = Inr H \<and> py_int ''00'' = Inr M \<and>
      Some (7200 :: timedelta) = Some (if CHR ''+'' = CHR ''-'' then - (H * 3600 + M * 60) else H * 3600 + M * 60)) \<and>
   (\<exists>H M. py_int ''05'' = Inr H \<and> py_int ''30'' = Inr M \<and>
      Some (- 19800 :: timedelta) = Some (if CHR ''-'' = CHR ''-'' then - (H * 3600 + M * 60) else H * 3600 + M * 60)) \<and>
   Some (0 :: timedelta) = Some 0"
proof -
  let ?d = "\<lparr>year = 2020, month = 1, day = 15, hour = 10, minute = 30, second = (0::int)\<rparr>"
  have p1: "parse_date strftime_any ''2020:01:15 10:30:00+02:00'' = Inr (Some ?d, Some 7200)"
    by code_simp
  have s1: "split_ws ''2020:01:15 10:30:00+02:00'' = ''2020:01:15'' # [''10:30:00+02:00'']"
    by code_simp
  have h1: "[''10:30:00+02:00''] = (''10:30:00'' @ CHR ''+'' # ''02'' @ CHR '':'' # ''00'') # [] \<and>
            (CHR ''+'' = CHR ''+'' \<or> CHR ''+'' = CHR ''-'') \<and>
            (\<forall>c \<in> set (''10:30:00'' @ ''02'' @ ''00''). \<not> is_sep c) \<and>
            CHR '':'' \<notin> set (''02'' @ ''00'')"
    by (simp add: is_sep_def)
  have r1: "\<exists>H M. py_int ''02'' = Inr H \<and> py_int ''00'' = Inr M \<and>
      Some (7200 :: timedelta) = Some (if CHR ''+'' = CHR ''-'' then - (H * 3600 + M * 60) else H * 3600 + M * 60)"
    by (rule mp [OF conjunct1 [OF parse_date_offset [OF p1 s1]] h1])
  have p2: "parse_date strftime_any ''2020:01:15 10:30:00-05:30'' = Inr (Some ?d, Some (- 19800))"
    by code_simp
  have s2: "split_ws ''2020:01:15 10:30:00-05:30'' = ''2020:01:15'' # [''10:30:00-05:30'']"
    by code_simp
  have h2: "[''10:30:00-05:30''] = (''10:30:00'' @ CHR ''-'' # ''05'' @ CHR '':'' # ''30'') # [] \<and>
            (CHR ''-'' = CHR ''+'' \<or> CHR ''-'' = CHR ''-'') \<and>
            (\<forall>c \<in> set (''10:30:00'' @ ''05'' @ ''30''). \<not> is_sep c) \<and>
            CHR '':'' \<notin> set (''05'' @ ''30'')"
    by (simp add: is_sep_def)
  have r2: "\<exists>H M. py_int ''05'' = Inr H \<and> py_int ''30'' = Inr M \<and>
      Some (- 19800 :: timedelta) = Some (if CHR ''-'' = CHR ''-'' then - (H * 3600 + M * 60) else H * 3600 + M * 60)"
    by (rule mp [OF conjunct1 [OF parse_date_offset [OF p2 s2]] h2])
  have p3: "parse_date strftime_any ''2020:01:15 10:30:00'' = Inr (Some ?d, Some 0)"
    by code_simp
  have s3: "split_ws ''2020:01:15 10:30:00'' = ''2020:01:15'' # [''10:30:00'']" by code_simp
  have h3: "[''10:30:00''] = [] \<or> (\<exists>e1 r. [''10:30:00''] = e1 # r \<and> (\<forall>c \<in> set e1. \<not> is_sep c))"
    by (simp add: is_sep_def)
  have r3: "Some (0 :: timedelta) = Some 0"
    by (rule mp [OF conjunct2 [OF parse_date_offset [OF p3 s3]] h3])
  from p1 p2 p3 r1 r2 r3 show ?thesis by (intro conjI)
qed

text \<open>
  C5, as stated, fails: a text without sign and without \<open>Z\<close> has the offset
  \<open>timedelta(0)\<close>, not an absent one.
\<close>

theorem parse_date_offset_absent_counterexample:
  "parse_date strftime_any ''2020:01:15 10:30:00''
     = Inr (Some \<lparr>year = 2020, month = 1, day = 15, hour = 10, minute = 30, second = 0\<rparr>, Some 0)"
  by code_simp

section \<open>Properties of the date resolver\<close>

lemma tags_distinct:
  "MEDIA_TYPE_VIDEO \<noteq> MEDIA_TYPE_PHOTO"
  "TAG_GPS_LATITUDE \<noteq> TAG_DATE_VIDEO" "TAG_GPS_LATITUDE \<noteq> TAG_GPS_LONGITUDE"
  "TAG_GPS_LATITUDE \<noteq> TAG_DATE_FILE" "TAG_DATE_VIDEO \<noteq> TAG_GPS_LATITUDE"
  "TAG_GPS_LONGITUDE \<noteq> TAG_GPS_LATITUDE" "TAG_DATE_FILE \<noteq> TAG_GPS_LATITUDE"
  by (simp_all add: MEDIA_TYPE_VIDEO_def MEDIA_TYPE_PHOTO_def TAG_GPS_LATITUDE_def
      TAG_DATE_VIDEO_def TAG_GPS_LONGITUDE_def TAG_DATE_FILE_def)


lemma get_date_video_no_gps:
  assumes "data TAG_DATE_VIDEO = Some text"
    and "parse_date (strftime L) text = Inr (Some dv, off0)"
    and "data TAG_GPS_LATITUDE = None \<or> data TAG_GPS_LONGITUDE = None \<or>
         (\<exists>lat lng. data TAG_GPS_LATITUDE = Some lat \<and> data TAG_GPS_LONGITUDE = Some lng \<and>
            get_offset L lat lng dv = Inr None)"
  shows "get_date L data MEDIA_TYPE_VIDEO =
     ebind (case data TAG_DATE_FILE of
              None \<Rightarrow> Inr None
            | Some ftext \<Rightarrow>
                ebind (parse_date (strftime L) ftext) (\<lambda>(date_file, offset_file).
                  case (date_file, offset_file) of
                    (Some df, Some off) \<Rightarrow>
                      ebind (dt_sub df off) (\<lambda>local.
                        if abs (dt_diff local dv) \<le> 3 then
                          ebind (dt_add dv off) (\<lambda>d.
                            Inr (Some (d, TAG_DATE_VIDEO @ '' in UTC '' @
                                          format_offset off @ '' via File'')))
                        else Inr None)
                  | _ \<Rightarrow> Inr None)) (\<lambda>corroborated.
       case corroborated of
         Some r \<Rightarrow> Inr (Some r)
       | None \<Rightarrow> Inr (Some (dv, TAG_DATE_VIDEO @ '' assumed in local time'')))"
  using assms
  by (auto simp add: get_date_def tags_distinct ebind_def
      split: option.splits)








text \<open>
  C8. \<open>get_offset\<close> never raises: it returns a value for every latitude, longitude
  and date, and that value is \<open>None\<close> when the timezone finder raises or finds no
  certain zone, and when pytz raises while building the zone, localizing or subtracting.
  \<open>get_date\<close> then goes on as if the record had no GPS position.
\<close>

theorem get_offset_never_raises:
  "(\<exists>r. get_offset L lat lng date = Inr r) \<and>
   ((\<exists>e. certain_timezone_at L lng lat = Inl e) \<or> certain_timezone_at L lng lat = Inr None \<or>
    (certain_timezone_at L lng lat = Inr (Some name) \<and>
     ((\<exists>e. timezone L name = Inl e) \<or>
      (timezone L name = Inr tz \<and>
       ((\<exists>e. localize L tz date = Inl e) \<or>
        (localize L tz date = Inr date_tz \<and>
         ((\<exists>e. localize L (utc L) date = Inl e) \<or>
          (localize L (utc L) date = Inr date_utc \<and>
           (\<exists>e. aware_diff L date_utc date_tz = Inl e)))))))) \<longrightarrow>
      get_offset L lat lng date = Inr None) \<and>
   (data TAG_DATE_VIDEO = Some text \<and> parse_date (strftime L) text = Inr (Some dv, off0) \<and>
    data TAG_GPS_LATITUDE = Some lat \<and> data TAG_GPS_LONGITUDE = Some lng \<and>
    get_offset L lat lng dv = Inr None \<longrightarrow>
      get_date L data MEDIA_TYPE_VIDEO =
        get_date L (data(TAG_GPS_LATITUDE := None)) MEDIA_TYPE_VIDEO)"
proof (intro conjI impI)
  show "\<exists>r. get_offset L lat lng date = Inr r"
    by (simp add: get_offset_def split: sum.splits)
next
  assume "(\<exists>e. certain_timezone_at L lng lat = Inl e) \<or> certain_timezone_at L lng lat = Inr None \<or>
    (certain_timezone_at L lng lat = Inr (Some name) \<and>
     ((\<exists>e. timezone L name = Inl e) \<or>
      (timezone L name = Inr tz \<and>
       ((\<exists>e. localize L tz date = Inl e) \<or>
        (localize L tz date = Inr date_tz \<and>
         ((\<exists>e. localize L (utc L) date = Inl e) \<or>
          (localize L (utc L) date = Inr date_utc \<and>
           (\<exists>e. aware_diff L date_utc date_tz = Inl e))))))))"
  then show "get_offset L lat lng date = Inr None"
    by (auto simp add: get_offset_def ebind_def)
next
  assume a: "data TAG_DATE_VIDEO = Some text \<and> parse_date (strftime L) text = Inr (Some dv, off0) \<and>
    data TAG_GPS_LATITUDE = Some lat \<and> data TAG_GPS_LONGITUDE = Some lng \<and>
    get_offset L lat lng dv = Inr None"
  let ?d = "data(TAG_GPS_LATITUDE := None)"
  from a have 1: "get_date L data MEDIA_TYPE_VIDEO =
     ebind (case data TAG_DATE_FILE of
              None \<Rightarrow> Inr None
            | Some ftext \<Rightarrow>
                ebind (parse_date (strftime L) ftext) (\<lambda>(date_file, offset_file).
                  case (date_file, offset_file) of
                    (Some df, Some off) \<Rightarrow>
                      ebind (dt_sub df off) (\<lambda>local.
                        if abs (dt_diff local dv) \<le> 3 then
                          ebind (dt_add dv off) (\<lambda>d.
                            Inr (Some (d, TAG_DATE_VIDEO @ '' in UTC '' @
                                          format_offset off @ '' via File'')))
                        else Inr None)
                  | _ \<Rightarrow> Inr None)) (\<lambda>corroborated.
       case corroborated of
         Some r \<Rightarrow> Inr (Some r)
       | None \<Rightarrow> Inr (Some (dv, TAG_DATE_VIDEO @ '' assumed in local time'')))"
    by (intro get_date_video_no_gps [where data = data]) auto
  from a have v: "?d TAG_DATE_VIDEO = Some text" by (simp add: tags_distinct)
  have n: "?d TAG_GPS_LATITUDE = None \<or> ?d TAG_GPS_LONGITUDE = None \<or>
         (\<exists>lat lng. ?d TAG_GPS_LATITUDE = Some lat \<and> ?d TAG_GPS_LONGITUDE = Some lng \<and>
            get_offset L lat lng dv = Inr None)" by simp
  from a have p: "parse_date (strftime L) text = Inr (Some dv, off0)" by simp
  have f: "?d TAG_DATE_FILE = data TAG_DATE_FILE" by (simp add: tags_distinct)
  show "get_date L data MEDIA_TYPE_VIDEO = get_date L ?d MEDIA_TYPE_VIDEO"
    unfolding 1 get_date_video_no_gps [where data = ?d, OF v p n] f ..
qed

theorem get_offset_never_raises_witness:
  "get_offset tokyo [] [] create_noon = Inr None \<and>
   get_offset tokyo ''0.0'' ''-30.0'' create_noon = Inr None \<and>
   get_date tokyo video_sea MEDIA_TYPE_VIDEO =
     get_date tokyo (video_sea(TAG_GPS_LATITUDE := None)) MEDIA_TYPE_VIDEO \<and>
   get_date tokyo video_sea MEDIA_TYPE_VIDEO =
     Inr (Some (\<lparr>year = 2021, month = 6, day = 1, hour = 21, minute = 0, second = 0\<rparr>,
                ''QuickTime:CreateDate in UTC + 09:00 via File''))"
proof -
  note T = get_offset_never_raises
  have h1: "(\<exists>e. certain_timezone_at tokyo [] [] = Inl e) \<or> certain_timezone_at tokyo [] [] = Inr None \<or>
    (certain_timezone_at tokyo [] [] = Inr (Some name) \<and>
     ((\<exists>e. timezone tokyo name = Inl e) \<or>
      (timezone tokyo name = Inr tz \<and>
       ((\<exists>e. localize tokyo tz create_noon = Inl e) \<or>
        (localize tokyo tz create_noon = Inr date_tz \<and>
         ((\<exists>e. localize tokyo (utc tokyo) create_noon = Inl e) \<or>
          (localize tokyo (utc tokyo) create_noon = Inr date_utc \<and>
           (\<exists>e. aware_diff tokyo date_utc date_tz = Inl e))))))))"
    for name tz date_tz date_utc
  proof -
    have "certain_timezone_at tokyo [] [] = Inl ValueError" by code_simp
    then show ?thesis by blast
  qed
  have r1: "get_offset tokyo [] [] create_noon = Inr None"
    by (rule mp [OF conjunct1 [OF conjunct2 [OF T [where L = tokyo and lng = "[]" and lat = "[]"
              and name = "[]" and tz = "[]" and date_tz = "(create_noon, 0)"
              and date_utc = "(create_noon, 0)"]]] h1])
  have h2: "(\<exists>e. certain_timezone_at tokyo ''-30.0'' ''0.0'' = Inl e) \<or>
    certain_timezone_at tokyo ''-30.0'' ''0.0'' = Inr None \<or>
    (certain_timezone_at tokyo ''-30.0'' ''0.0'' = Inr (Some name) \<and>
     ((\<exists>e. timezone tokyo name = Inl e) \<or>
      (timezone tokyo name = Inr tz \<and>
       ((\<exists>e. localize tokyo tz create_noon = Inl e) \<or>
        (localize tokyo tz create_noon = Inr date_tz \<and>
         ((\<exists>e. localize tokyo (utc tokyo) create_noon = Inl e) \<or>
          (localize tokyo (utc tokyo) create_noon = Inr date_utc \<and>
           (\<exists>e. aware_diff tokyo date_utc date_tz = Inl e))))))))"
    for name tz date_tz date_utc
  proof -
    have "certain_timezone_at tokyo ''-30.0'' ''0.0'' = Inr None" by code_simp
    then show ?thesis by blast
  qed
  have r2: "get_offset tokyo ''0.0'' ''-30.0'' create_noon = Inr None"
    by (rule mp [OF conjunct1 [OF conjunct2 [OF T [where L = tokyo and lng = "''-30.0''"
              and lat = "''0.0''" and name = "[]" and tz = "[]" and date_tz = "(create_noon, 0)"
              and date_utc = "(create_noon, 0)"]]] h2])
  have h3: "video_sea TAG_DATE_VIDEO = Some ''2021:06:01 12:00:00'' \<and>
    parse_date (strftime tokyo) ''2021:06:01 12:00:00'' = Inr (Some create_noon, Some 0) \<and>
    video_sea TAG_GPS_LATITUDE = Some ''0.0'' \<and> video_sea TAG_GPS_LONGITUDE = Some ''-30.0'' \<and>
    get_offset tokyo ''0.0'' ''-30.0'' create_noon = Inr None"
  proof -
    have "video_sea TAG_DATE_VIDEO = Some ''2021:06:01 12:00:00''" by code_simp
    moreover have "parse_date (strftime tokyo) ''2021:06:01 12:00:00'' = Inr (Some create_noon, Some 0)"
      by code_simp
    moreover have "video_sea TAG_GPS_LATITUDE = Some ''0.0''" by code_simp
    moreover have "video_sea TAG_GPS_LONGITUDE = Some ''-30.0''" by code_simp
    ultimately show ?thesis using r2 by blast
  qed
  have r3: "get_date tokyo video_sea MEDIA_TYPE_VIDEO =
     get_date tokyo (video_sea(TAG_GPS_LATITUDE := None)) MEDIA_TYPE_VIDEO"
    by (rule mp [OF conjunct2 [OF conjunct2 [OF T [where data = video_sea and L = tokyo]]] h3])
  have r4: "get_date tokyo video_sea MEDIA_TYPE_VIDEO =
     Inr (Some (\<lparr>year = 2021, month = 6, day = 1, hour = 21, minute = 0, second = 0\<rparr>,
                ''QuickTime:CreateDate in UTC + 09:00 via File''))"
    by code_simp
  from r1 r2 r3 r4 show ?thesis by (intro conjI)
qed

end
